theory Spec2Isabelle
  imports Main
begin

section \<open>Values, dictionaries and exceptions\<close>

text \<open>
  The authentication code of \<^verbatim>\<open>src/main.py\<close> handles three kinds of dynamically typed
  data: the claim set of a token, a document of the \<^verbatim>\<open>adminuser\<close> collection and the
  keyword arguments of the \<^verbatim>\<open>AdminUser\<close> model. All three are Python dictionaries from
  strings to values, modelled as association lists in insertion order.

  A \<^verbatim>\<open>datetime\<close> is the number of microseconds since the epoch, a \<^verbatim>\<open>timedelta\<close> a
  number of microseconds; Python integers are unbounded, so both are \<open>int\<close>.
\<close>

datatype val = VStr string | VInt int | VBool bool | VDatetime int | VNone

type_synonym dict = "(string \<times> val) list"

text \<open>\<^verbatim>\<open>d[k] = v\<close>: an existing key keeps its position, a new key goes last.\<close>

fun dict_set :: "dict \<Rightarrow> string \<Rightarrow> val \<Rightarrow> dict" where
  "dict_set [] k v = [(k, v)]"
| "dict_set ((k', v') # d) k v =
     (if k' = k then (k, v) # d else (k', v') # dict_set d k v)"

text \<open>
  Every exception that can leave one of the modelled operations. \<open>HTTPException\<close> carries
  \<^verbatim>\<open>status_code\<close> and \<^verbatim>\<open>detail\<close>; the others are raised by the libraries the code calls
  and are not caught by it.
\<close>

datatype error =
    HTTPException nat string
  | TypeError
  | KeyError
  | ValidationError
  | UnknownHashError
  | MalformedHashError
  | NullPasswordError
  | PyMongoError
  | DuplicateKeyError

section \<open>The token codec (\<^verbatim>\<open>jose.jwt\<close>)\<close>

text \<open>
  \<^verbatim>\<open>jwt.encode\<close> and \<^verbatim>\<open>jwt.decode\<close> belong to the python-jose library. They are modelled
  symbolically: a presented token is either a string that is not a compact JWS with a JSON
  object as payload, or a JWS with its header algorithm, the key its signature was computed
  with, and its claims. A signature verifies exactly when the keys agree.
\<close>

datatype token = Garbled string | Signed string string dict

text \<open>The three ways \<^verbatim>\<open>jwt.decode\<close> fails; all are subclasses of \<^verbatim>\<open>JWTError\<close>.\<close>

datatype jwt_error = JWSError | JWTClaimsError | ExpiredSignatureError

text \<open>\<^verbatim>\<open>timegm(d.utctimetuple())\<close>: whole seconds, the fraction dropped.\<close>

definition timegm :: "int \<Rightarrow> int" where
  "timegm d = d div 1000000"

definition timedelta_minutes :: "int \<Rightarrow> int" where
  "timedelta_minutes m = m * 60 * 1000000"

text \<open>
  \<^verbatim>\<open>jwt.encode\<close> turns a \<^verbatim>\<open>datetime\<close> under \<^verbatim>\<open>exp\<close>, \<^verbatim>\<open>iat\<close> or \<^verbatim>\<open>nbf\<close> into a numeric
  date and signs the claims.
\<close>

definition numeric_date :: "string \<times> val \<Rightarrow> string \<times> val" where
  "numeric_date kv =
     (case kv of
        (k, VDatetime d) \<Rightarrow>
          if k \<in> {''exp'', ''iat'', ''nbf''} then (k, VInt (timegm d)) else (k, VDatetime d)
      | _ \<Rightarrow> kv)"

definition jwt_encode :: "dict \<Rightarrow> string \<Rightarrow> string \<Rightarrow> token" where
  "jwt_encode claims key algorithm = Signed algorithm key (map numeric_date claims)"

text \<open>
  The claim validation of \<^verbatim>\<open>jwt.decode\<close> with default options, for the claims that occur
  here: \<^verbatim>\<open>nbf\<close> must not lie in the future, \<^verbatim>\<open>exp\<close> must not lie in the past
  (\<^verbatim>\<open>exp < now\<close> fails, so a token is still accepted in the second of its expiry), and
  \<^verbatim>\<open>sub\<close> must be a string. The result is the first failure, if any.
\<close>

definition validate_nbf :: "int \<Rightarrow> dict \<Rightarrow> jwt_error option" where
  "validate_nbf now claims =
     (case map_of claims ''nbf'' of
        None \<Rightarrow> None
      | Some (VInt nbf) \<Rightarrow> if nbf > now then Some JWTClaimsError else None
      | Some _ \<Rightarrow> Some JWTClaimsError)"

definition validate_exp :: "int \<Rightarrow> dict \<Rightarrow> jwt_error option" where
  "validate_exp now claims =
     (case map_of claims ''exp'' of
        None \<Rightarrow> None
      | Some (VInt exp) \<Rightarrow> if exp < now then Some ExpiredSignatureError else None
      | Some _ \<Rightarrow> Some JWTClaimsError)"

definition validate_sub :: "dict \<Rightarrow> jwt_error option" where
  "validate_sub claims =
     (case map_of claims ''sub'' of
        None \<Rightarrow> None
      | Some (VStr s) \<Rightarrow> None
      | Some _ \<Rightarrow> Some JWTClaimsError)"

definition validate_claims :: "int \<Rightarrow> dict \<Rightarrow> jwt_error option" where
  "validate_claims now claims =
     (case validate_nbf now claims of
        Some e \<Rightarrow> Some e
      | None \<Rightarrow>
          (case validate_exp now claims of
             Some e \<Rightarrow> Some e
           | None \<Rightarrow> validate_sub claims))"

text \<open>
  \<^verbatim>\<open>jwt.decode(token, key, algorithms)\<close> at clock reading \<open>utcnow\<close>: the token must
  parse, its algorithm must be an allowed one, its signature must verify under \<open>key\<close>, and
  its claims must validate.
\<close>

fun jwt_decode :: "int \<Rightarrow> token \<Rightarrow> string \<Rightarrow> string list \<Rightarrow> jwt_error + dict" where
  "jwt_decode utcnow (Garbled s) key algorithms = Inl JWSError"
| "jwt_decode utcnow (Signed alg k claims) key algorithms =
     (if alg \<notin> set algorithms then Inl JWSError
      else if k \<noteq> key then Inl JWSError
      else (case validate_claims (timegm utcnow) claims of
              Some e \<Rightarrow> Inl e
            | None \<Rightarrow> Inr claims))"

section \<open>Configuration and token issuance\<close>

definition ALGORITHM :: string where
  "ALGORITHM = ''HS256''"

definition ACCESS_TOKEN_EXPIRE_MINUTES :: int where
  "ACCESS_TOKEN_EXPIRE_MINUTES = 60 * 8"

text \<open>
  \<^verbatim>\<open>create_access_token(data, expires_delta=None)\<close>. The signing secret \<^verbatim>\<open>JWT_SECRET\<close>
  (argument \<open>secret\<close>) is read from the environment when the module is loaded and the
  clock is read by \<^verbatim>\<open>datetime.utcnow()\<close>; both are arguments here.
  \<^verbatim>\<open>expires_delta or ...\<close> takes the default for \<^verbatim>\<open>None\<close> and for the zero \<^verbatim>\<open>timedelta\<close>, which is falsy.
\<close>

definition create_access_token :: "string \<Rightarrow> int \<Rightarrow> dict \<Rightarrow> int option \<Rightarrow> token" where
  "create_access_token secret utcnow data expires_delta =
     (let to_encode = data;
          expire = utcnow +
            (case expires_delta of
               None \<Rightarrow> timedelta_minutes ACCESS_TOKEN_EXPIRE_MINUTES
             | Some d \<Rightarrow> if d = 0 then timedelta_minutes ACCESS_TOKEN_EXPIRE_MINUTES else d);
          to_encode = dict_set to_encode ''exp'' (VDatetime expire);
          encoded_jwt = jwt_encode to_encode secret ALGORITHM
      in encoded_jwt)"


section \<open>The password hasher (\<^verbatim>\<open>passlib\<close>)\<close>

text \<open>
  \<^verbatim>\<open>pwd_context = CryptContext(schemes=["bcrypt"], deprecated="auto")\<close> belongs to the
  passlib library. A bcrypt hash string is an identifier, a two-digit cost, \<^verbatim>\<open>$\<close>, 22
  characters of salt and 31 characters of checksum. The checksum function itself is a
  parameter \<open>bcrypt\<close> of the model: it maps the configuration (identifier, cost and salt)
  and the password to the checksum. The salt drawn by \<^verbatim>\<open>hash\<close> is an argument.
\<close>

type_synonym bcrypt = "string \<Rightarrow> string \<Rightarrow> string"

definition bcrypt_idents :: "string list" where
  "bcrypt_idents = [''$2$'', ''$2a$'', ''$2x$'', ''$2y$'', ''$2b$'']"

definition bcrypt64 :: "char set" where
  "bcrypt64 = set ''./ABCDEFGHIJKLMNOPQRSTUVWXYZabcdefghijklmnopqrstuvwxyz0123456789''"

text \<open>The cost is written with two digits and lies between 4 and 31.\<close>

definition bcrypt_costs :: "string list" where
  "bcrypt_costs =
     map (\<lambda>n. [''0123456789'' ! (n div 10), ''0123456789'' ! (n mod 10)]) [4..<32]"

text \<open>The configured scheme recognises a hash by its identifier alone.\<close>

definition identify :: "string \<Rightarrow> bool" where
  "identify h = (\<exists>i \<in> set bcrypt_idents. take (length i) h = i)"

text \<open>
  Parsing an identified hash into configuration and checksum; \<open>None\<close> where passlib
  raises for a malformed hash (wrong length, cost or alphabet; the unsupported \<^verbatim>\<open>$2x$\<close>).
\<close>

definition from_string :: "string \<Rightarrow> (string \<times> string) option" where
  "from_string h =
     (case filter (\<lambda>i. take (length i) h = i) bcrypt_idents of
        [] \<Rightarrow> None
      | i # _ \<Rightarrow>
          (let tail = drop (length i) h;
               rounds = take 2 tail;
               data = drop 3 tail
           in if i \<noteq> ''$2x$'' \<and> length tail = 56 \<and> tail ! 2 = CHR ''$''
                 \<and> rounds \<in> set bcrypt_costs \<and> set data \<subseteq> bcrypt64
              then Some (take (length i + 25) h, drop (length i + 25) h)
              else None))"

definition NUL :: char where
  "NUL = CHR 0x00"

text \<open>
  \<^verbatim>\<open>pwd_context.verify(secret, hash)\<close>: \<^verbatim>\<open>None\<close> as hash gives \<^verbatim>\<open>False\<close>, a value that is
  not a string is a type error, a string that no configured scheme identifies raises
  \<^verbatim>\<open>UnknownHashError\<close>, a malformed bcrypt hash raises, and bcrypt refuses passwords that
  contain a NUL character.
\<close>

definition pwd_context_verify :: "bcrypt \<Rightarrow> string \<Rightarrow> val \<Rightarrow> error + bool" where
  "pwd_context_verify bcrypt secret hash =
     (case hash of
        VNone \<Rightarrow> Inr False
      | VStr h \<Rightarrow>
          if \<not> identify h then Inl UnknownHashError
          else (case from_string h of
                  None \<Rightarrow> Inl MalformedHashError
                | Some (config, chk) \<Rightarrow>
                    if NUL \<in> set secret then Inl NullPasswordError
                    else Inr (bcrypt config secret = chk))
      | _ \<Rightarrow> Inl TypeError)"

definition pwd_context_hash :: "bcrypt \<Rightarrow> string \<Rightarrow> string \<Rightarrow> error + string" where
  "pwd_context_hash bcrypt salt secret =
     (if NUL \<in> set secret then Inl NullPasswordError
      else (let config = ''$2b$12$'' @ salt in Inr (config @ bcrypt config secret)))"

section \<open>The identity record (\<^verbatim>\<open>schemas.AdminUser\<close>)\<close>

record AdminUser =
  email :: string
  password_hash :: string
  role :: string
  name :: "string option"
  last_login :: "int option"
  is_active :: bool

text \<open>
  Field validation of the pydantic model: a required string, a string with a default, an
  optional string, an optional \<^verbatim>\<open>datetime\<close> and a boolean with a default. A value of
  another type is a validation error (the conversions pydantic would try between types are
  not modelled; no document written by \<^verbatim>\<open>register_admin\<close> needs one).
\<close>

definition field_str :: "dict \<Rightarrow> string \<Rightarrow> string option \<Rightarrow> error + string" where
  "field_str kw k dflt =
     (case map_of kw k of
        None \<Rightarrow> (case dflt of None \<Rightarrow> Inl ValidationError | Some s \<Rightarrow> Inr s)
      | Some (VStr s) \<Rightarrow> Inr s
      | Some _ \<Rightarrow> Inl ValidationError)"

definition field_opt_str :: "dict \<Rightarrow> string \<Rightarrow> error + string option" where
  "field_opt_str kw k =
     (case map_of kw k of
        None \<Rightarrow> Inr None
      | Some VNone \<Rightarrow> Inr None
      | Some (VStr s) \<Rightarrow> Inr (Some s)
      | Some _ \<Rightarrow> Inl ValidationError)"

definition field_opt_datetime :: "dict \<Rightarrow> string \<Rightarrow> error + int option" where
  "field_opt_datetime kw k =
     (case map_of kw k of
        None \<Rightarrow> Inr None
      | Some VNone \<Rightarrow> Inr None
      | Some (VDatetime t) \<Rightarrow> Inr (Some t)
      | Some _ \<Rightarrow> Inl ValidationError)"

definition field_bool :: "dict \<Rightarrow> string \<Rightarrow> bool \<Rightarrow> error + bool" where
  "field_bool kw k dflt =
     (case map_of kw k of
        None \<Rightarrow> Inr dflt
      | Some (VBool b) \<Rightarrow> Inr b
      | Some _ \<Rightarrow> Inl ValidationError)"

text \<open>\<^verbatim>\<open>AdminUser(**kw)\<close>, with the defaults of \<^verbatim>\<open>src/schemas.py\<close>.\<close>

definition AdminUser_init :: "dict \<Rightarrow> error + AdminUser" where
  "AdminUser_init kw =
     (case field_str kw ''email'' None of Inl e \<Rightarrow> Inl e | Inr em \<Rightarrow>
      case field_str kw ''password_hash'' None of Inl e \<Rightarrow> Inl e | Inr ph \<Rightarrow>
      case field_str kw ''role'' (Some ''admin'') of Inl e \<Rightarrow> Inl e | Inr rl \<Rightarrow>
      case field_opt_str kw ''name'' of Inl e \<Rightarrow> Inl e | Inr nm \<Rightarrow>
      case field_opt_datetime kw ''last_login'' of Inl e \<Rightarrow> Inl e | Inr ll \<Rightarrow>
      case field_bool kw ''is_active'' True of Inl e \<Rightarrow> Inl e | Inr ia \<Rightarrow>
        Inr \<lparr>email = em, password_hash = ph, role = rl, name = nm,
             last_login = ll, is_active = ia\<rparr>)"

text \<open>\<^verbatim>\<open>model_dump()\<close>: every field, in declaration order; \<^verbatim>\<open>None\<close> stays \<^verbatim>\<open>None\<close>.\<close>

definition model_dump :: "AdminUser \<Rightarrow> dict" where
  "model_dump u =
     [(''email'', VStr (email u)),
      (''password_hash'', VStr (password_hash u)),
      (''role'', VStr (role u)),
      (''name'', (case name u of None \<Rightarrow> VNone | Some n \<Rightarrow> VStr n)),
      (''last_login'', (case last_login u of None \<Rightarrow> VNone | Some t \<Rightarrow> VDatetime t)),
      (''is_active'', VBool (is_active u))]"

section \<open>The identity store (\<^verbatim>\<open>db["adminuser"]\<close>)\<close>

text \<open>
  The collection is the list of its documents. A call to the store can raise; which
  operations currently do is part of the state (\<open>failing\<close>), so that a lookup can succeed
  and a later update fail. \<open>unique_index\<close> says whether the store itself enforces unique
  emails. The module-level \<^verbatim>\<open>db\<close> is a \<open>database option\<close>: \<^verbatim>\<open>None\<close> when no store is
  configured, and a handle that is present counts as true in \<^verbatim>\<open>if db\<close>.
\<close>

datatype store_op = FindOne | InsertOne | UpdateOne

record database =
  adminuser :: "dict list"
  failing :: "store_op set"
  unique_index :: bool

text \<open>\<^verbatim>\<open>find_one({"email": v})\<close>: the first document whose \<^verbatim>\<open>email\<close> equals \<open>v\<close>.\<close>

definition matches :: "val \<Rightarrow> dict \<Rightarrow> bool" where
  "matches v d = (map_of d ''email'' = Some v)"

definition find_one :: "database \<Rightarrow> val \<Rightarrow> error + dict option" where
  "find_one db v =
     (if FindOne \<in> failing db then Inl PyMongoError
      else Inr (find (matches v) (adminuser db)))"

text \<open>
  \<^verbatim>\<open>update_one({"email": v}, {"$set": {k: x}})\<close>: sets the field in the first matching
  document, and changes nothing when there is none.
\<close>

fun set_first :: "val \<Rightarrow> string \<Rightarrow> val \<Rightarrow> dict list \<Rightarrow> dict list" where
  "set_first v k x [] = []"
| "set_first v k x (d # ds) =
     (if matches v d then dict_set d k x # ds else d # set_first v k x ds)"

definition update_one :: "database \<Rightarrow> val \<Rightarrow> string \<Rightarrow> val \<Rightarrow> error + database" where
  "update_one db v k x =
     (if UpdateOne \<in> failing db then Inl PyMongoError
      else Inr (db\<lparr>adminuser := set_first v k x (adminuser db)\<rparr>))"

text \<open>
  Modelled from the spec: \<^verbatim>\<open>create_document\<close> of the \<^verbatim>\<open>database\<close> module, which is not
  among the sources. The spec's store adapter has \<^verbatim>\<open>insert(record) -> Result<(),
  DuplicateKeyError>\<close>, and a successful insert persists exactly one new identity record.
  The record is stored as its \<open>model_dump\<close>; the duplicate-key error arises only in a store
  that enforces the unique index.
\<close>

definition create_document :: "database \<Rightarrow> AdminUser \<Rightarrow> error + database" where
  "create_document db data =
     (if InsertOne \<in> failing db then Inl PyMongoError
      else if unique_index db \<and> (\<exists>d \<in> set (adminuser db). matches (VStr (email data)) d)
      then Inl DuplicateKeyError
      else Inr (db\<lparr>adminuser := adminuser db @ [model_dump data]\<rparr>))"

section \<open>The authentication operations (\<^verbatim>\<open>src/main.py\<close>)\<close>

text \<open>
  The process-wide environment: the signing secret and the checksum function of the
  hasher. The response model \<^verbatim>\<open>Token\<close> has the token string and its type.
\<close>

record env =
  JWT_SECRET :: string
  bcrypt_checksum :: bcrypt

record Token =
  access_token :: token
  token_type :: string

definition verify_password :: "env \<Rightarrow> string \<Rightarrow> val \<Rightarrow> error + bool" where
  "verify_password E plain_password hashed_password =
     pwd_context_verify (bcrypt_checksum E) plain_password hashed_password"

definition get_password_hash :: "env \<Rightarrow> string \<Rightarrow> string \<Rightarrow> error + string" where
  "get_password_hash E salt password = pwd_context_hash (bcrypt_checksum E) salt password"

text \<open>
  The truth value of what \<^verbatim>\<open>find_one\<close> returns: \<^verbatim>\<open>None\<close> and the empty document are
  false, any other document is true.
\<close>

definition truthy :: "dict option \<Rightarrow> bool" where
  "truthy user = (case user of None \<Rightarrow> False | Some u \<Rightarrow> u \<noteq> [])"

definition credentials_exception :: error where
  "credentials_exception = HTTPException 401 ''Could not validate credentials''"

text \<open>
  \<^verbatim>\<open>get_current_admin(token)\<close>. Any \<^verbatim>\<open>JWTError\<close> and a payload without \<^verbatim>\<open>sub\<close>
  (\<^verbatim>\<open>payload.get("sub")\<close> is \<^verbatim>\<open>None\<close>) raise the credentials exception; so does a lookup
  that finds nothing, which is also what an absent \<^verbatim>\<open>db\<close> gives. The caller is built from
  the stored document without its \<^verbatim>\<open>_id\<close>.
\<close>

definition get_current_admin :: "env \<Rightarrow> database option \<Rightarrow> int \<Rightarrow> token \<Rightarrow> error + AdminUser" where
  "get_current_admin E db utcnow tok =
     (case jwt_decode utcnow tok (JWT_SECRET E) [ALGORITHM] of
        Inl _ \<Rightarrow> Inl credentials_exception
      | Inr payload \<Rightarrow>
          (case map_of payload ''sub'' of
             None \<Rightarrow> Inl credentials_exception
           | Some VNone \<Rightarrow> Inl credentials_exception
           | Some sub \<Rightarrow>
               (case (case db of None \<Rightarrow> Inr None | Some d \<Rightarrow> find_one d sub) of
                  Inl e \<Rightarrow> Inl e
                | Inr user \<Rightarrow>
                    if \<not> truthy user then Inl credentials_exception
                    else AdminUser_init (filter (\<lambda>kv. fst kv \<noteq> ''_id'') (the user)))))"

text \<open>\<^verbatim>\<open>s.split(sep)[0]\<close> for a one-character separator: the part before its first occurrence.\<close>

definition split_head :: "char \<Rightarrow> string \<Rightarrow> string" where
  "split_head sep s = takeWhile (\<lambda>c. c \<noteq> sep) s"

text \<open>
  \<^verbatim>\<open>payload.name or default\<close>: the second operand for \<^verbatim>\<open>None\<close> and for the empty
  string, which is falsy.
\<close>

definition name_or :: "string option \<Rightarrow> string \<Rightarrow> string" where
  "name_or payload_name dflt =
     (case payload_name of None \<Rightarrow> dflt | Some n \<Rightarrow> if n = [] then dflt else n)"

text \<open>
  \<^verbatim>\<open>register_admin(payload)\<close>, the payload being the three fields of \<^verbatim>\<open>AdminCreate\<close>.
  The result is the response or the exception, together with the store afterwards.
  \<^verbatim>\<open>db["adminuser"]\<close> on an absent \<^verbatim>\<open>db\<close> is a type error. The record is built by the
  model from the three keyword arguments, the other fields taking their defaults.
\<close>

definition register_admin ::
  "env \<Rightarrow> database option \<Rightarrow> string \<Rightarrow> int \<Rightarrow> string \<Rightarrow> string \<Rightarrow> string option
     \<Rightarrow> (error + Token) \<times> database option" where
  "register_admin E db salt utcnow payload_email payload_password payload_name =
     (case db of
        None \<Rightarrow> (Inl TypeError, db)
      | Some d \<Rightarrow>
          (case find_one d (VStr payload_email) of
             Inl e \<Rightarrow> (Inl e, db)
           | Inr found \<Rightarrow>
               if truthy found
               then (Inl (HTTPException 400 ''Email already registered''), db)
               else
                 (case get_password_hash E salt payload_password of
                    Inl e \<Rightarrow> (Inl e, db)
                  | Inr hashed \<Rightarrow>
                      (case AdminUser_init
                              [(''email'', VStr payload_email),
                               (''password_hash'', VStr hashed),
                               (''name'', VStr (name_or payload_name
                                                 (split_head (CHR ''@'') payload_email)))] of
                         Inl e \<Rightarrow> (Inl e, db)
                       | Inr admin \<Rightarrow>
                           (case create_document d admin of
                              Inl e \<Rightarrow> (Inl e, db)
                            | Inr d' \<Rightarrow>
                                (let tok = create_access_token (JWT_SECRET E) utcnow
                                             [(''sub'', VStr payload_email)] None
                                 in (Inr \<lparr>access_token = tok, token_type = ''bearer''\<rparr>,
                                     Some d')))))))"

text \<open>
  The record that a successful registration hands to \<open>create_document\<close>: the three
  arguments that \<^verbatim>\<open>register_admin\<close> passes and the defaults of the model.
\<close>

definition new_admin :: "string \<Rightarrow> string \<Rightarrow> string option \<Rightarrow> AdminUser" where
  "new_admin payload_email hashed payload_name =
     \<lparr>email = payload_email, password_hash = hashed, role = ''admin'',
      name = Some (name_or payload_name (split_head (CHR ''@'') payload_email)),
      last_login = None, is_active = True\<rparr>"

text \<open>
  \<^verbatim>\<open>user.get("password_hash", "")\<close> and the test
  \<^verbatim>\<open>not user or not verify_password(form_data.password, ...)\<close> of \<^verbatim>\<open>login\<close>: the second
  operand is evaluated, and can raise, only when a document was found.
\<close>

definition dict_get :: "dict \<Rightarrow> string \<Rightarrow> val \<Rightarrow> val" where
  "dict_get d k dflt = (case map_of d k of None \<Rightarrow> dflt | Some v \<Rightarrow> v)"

definition credential_mismatch :: "env \<Rightarrow> dict option \<Rightarrow> string \<Rightarrow> error + bool" where
  "credential_mismatch E user password =
     (if \<not> truthy user then Inr True
      else (case verify_password E password
                   (dict_get (the user) ''password_hash'' (VStr [])) of
              Inl e \<Rightarrow> Inl e
            | Inr ok \<Rightarrow> Inr (\<not> ok)))"

text \<open>
  \<^verbatim>\<open>login(form_data)\<close>, the form being \<^verbatim>\<open>username\<close> and \<^verbatim>\<open>password\<close>. The clock is read
  twice: \<open>utcnow\<close> when the token is created and \<open>utcnow'\<close> for \<^verbatim>\<open>last_login\<close>. The token
  is created before the update, the update is not guarded, and the response is built
  after it. Past the credential test \<open>user\<close> is a document, so \<open>the user\<close> is defined.
\<close>

definition login ::
  "env \<Rightarrow> database option \<Rightarrow> int \<Rightarrow> int \<Rightarrow> string \<Rightarrow> string
     \<Rightarrow> (error + Token) \<times> database option" where
  "login E db utcnow utcnow' username password =
     (case db of
        None \<Rightarrow> (Inl TypeError, db)
      | Some d \<Rightarrow>
          (case find_one d (VStr username) of
             Inl e \<Rightarrow> (Inl e, db)
           | Inr user \<Rightarrow>
               (case credential_mismatch E user password of
                  Inl e \<Rightarrow> (Inl e, db)
                | Inr True \<Rightarrow> (Inl (HTTPException 400 ''Incorrect email or password''), db)
                | Inr False \<Rightarrow>
                    (case map_of (the user) ''email'' of
                       None \<Rightarrow> (Inl KeyError, db)
                     | Some em \<Rightarrow>
                         (let tok = create_access_token (JWT_SECRET E) utcnow [(''sub'', em)] None
                          in case update_one d em ''last_login'' (VDatetime utcnow') of
                               Inl e \<Rightarrow> (Inl e, db)
                             | Inr d' \<Rightarrow>
                                 (Inr \<lparr>access_token = tok, token_type = ''bearer''\<rparr>,
                                  Some d'))))))"

section \<open>The uniqueness invariant\<close>

text \<open>No two documents of the collection carry the same email.\<close>

definition emails :: "dict list \<Rightarrow> val list" where
  "emails ds = concat (map (\<lambda>d. case map_of d ''email'' of None \<Rightarrow> [] | Some v \<Rightarrow> [v]) ds)"

definition unique_emails :: "database \<Rightarrow> bool" where
  "unique_emails db = distinct (emails (adminuser db))"

section \<open>Example data\<close>

text \<open>
  A checksum function, an environment, a salt and small stores on which the operations are
  evaluated. \<open>alice\<close> is a stored document as the store returns it, with its \<^verbatim>\<open>_id\<close>;
  \<open>hash0\<close> is the hash of the password \<^verbatim>\<open>pw123456\<close> under \<open>bcrypt0\<close> and \<open>salt0\<close>;
  \<open>nohash\<close> is a document without \<^verbatim>\<open>password_hash\<close>.
\<close>

definition bcrypt0 :: bcrypt where
  "bcrypt0 config secret =
     (if secret = ''pw123456'' then ''AAAAAAAAAAAAAAAAAAAAAAAAAAAAAAA''
      else ''BBBBBBBBBBBBBBBBBBBBBBBBBBBBBBB'')"

definition E0 :: env where
  "E0 = \<lparr>JWT_SECRET = ''dev-secret-change'', bcrypt_checksum = bcrypt0\<rparr>"

definition salt0 :: string where
  "salt0 = ''abcdefghijklmnopqrstuv''"

definition hash0 :: string where
  "hash0 = ''$2b$12$abcdefghijklmnopqrstuvAAAAAAAAAAAAAAAAAAAAAAAAAAAAAAA''"

definition alice :: dict where
  "alice =
     [(''_id'', VInt 1), (''email'', VStr ''a@x.com''), (''password_hash'', VStr hash0),
      (''role'', VStr ''admin''), (''name'', VStr ''Alice''), (''last_login'', VNone),
      (''is_active'', VBool True)]"

definition nohash :: dict where
  "nohash = [(''_id'', VInt 2), (''email'', VStr ''b@x.com''), (''role'', VStr ''admin'')]"

definition db0 :: database where
  "db0 = \<lparr>adminuser = [], failing = {}, unique_index = False\<rparr>"

definition db1 :: database where
  "db1 = \<lparr>adminuser = [alice], failing = {}, unique_index = False\<rparr>"

definition db2 :: database where
  "db2 = \<lparr>adminuser = [alice, nohash], failing = {}, unique_index = False\<rparr>"

definition token0 :: token where
  "token0 = create_access_token ''dev-secret-change'' 0 [(''sub'', VStr ''a@x.com'')] None"

section \<open>Token round trip\<close>

lemma eight_hours: "timedelta_minutes ACCESS_TOKEN_EXPIRE_MINUTES = 8 * 3600 * 1000000"
  by (simp add: timedelta_minutes_def ACCESS_TOKEN_EXPIRE_MINUTES_def)

lemma create_access_token_sub:
  "create_access_token secret utcnow [(''sub'', VStr addr)] None =
     Signed ALGORITHM secret
       [(''sub'', VStr addr),
        (''exp'', VInt (timegm (utcnow + timedelta_minutes ACCESS_TOKEN_EXPIRE_MINUTES)))]"
  by (simp add: create_access_token_def jwt_encode_def numeric_date_def)

lemma timegm_mono: "a \<le> b \<Longrightarrow> timegm a \<le> timegm b"
  by (simp add: timegm_def zdiv_mono1)

text \<open>
  Claim C5. A token issued by \<open>create_access_token\<close> for an email with the default lifetime
  carries, as its \<^verbatim>\<open>exp\<close> claim, the issuance time plus 8 hours (480 minutes, in the whole
  seconds of a numeric date), and decoding it with the same secret at any time \<open>t\<close> up to
  that expiry succeeds and returns claims whose \<^verbatim>\<open>sub\<close> is the same email.
\<close>

theorem token_round_trip:
  assumes "t \<le> utcnow + 8 * 3600 * 1000000"
  shows "\<exists>claims.
           jwt_decode t (create_access_token secret utcnow [(''sub'', VStr addr)] None)
             secret [ALGORITHM] = Inr claims
         \<and> map_of claims ''sub'' = Some (VStr addr)
         \<and> map_of claims ''exp'' = Some (VInt (timegm (utcnow + 8 * 3600 * 1000000)))"
proof -
  let ?exp = "utcnow + timedelta_minutes ACCESS_TOKEN_EXPIRE_MINUTES"
  let ?claims = "[(''sub'', VStr addr), (''exp'', VInt (timegm ?exp))]"
  have le: "timegm t \<le> timegm ?exp"
    using assms by (intro timegm_mono) (simp add: eight_hours)
  have "validate_claims (timegm t) ?claims = None"
    using le by (simp add: validate_claims_def validate_nbf_def validate_exp_def validate_sub_def)
  then have "jwt_decode t (create_access_token secret utcnow [(''sub'', VStr addr)] None)
               secret [ALGORITHM] = Inr ?claims"
    by (simp add: create_access_token_sub)
  then show ?thesis
    by (simp add: eight_hours)
qed

theorem token_round_trip_witness:
  "(1000000::int) \<le> 0 + 8 * 3600 * 1000000
   \<and> (\<exists>claims.
        jwt_decode 1000000 (create_access_token ''k'' 0 [(''sub'', VStr ''a@x.com'')] None)
          ''k'' [ALGORITHM] = Inr claims
      \<and> map_of claims ''sub'' = Some (VStr ''a@x.com'')
      \<and> map_of claims ''exp'' = Some (VInt (timegm (0 + 8 * 3600 * 1000000))))"
  using token_round_trip [of 1000000 0 "''k''" "''a@x.com''"] by simp

section \<open>Request authentication returns the stored record\<close>

lemma map_of_drop_id:
  "k \<noteq> ''_id'' \<Longrightarrow> map_of (filter (\<lambda>kv. fst kv \<noteq> ''_id'') d) k = map_of d k"
  by (induction d) auto

lemma field_str_required: "field_str kw k None = Inr s \<Longrightarrow> map_of kw k = Some (VStr s)"
  by (auto simp: field_str_def split: option.splits val.splits)

lemma AdminUser_init_fields:
  assumes "AdminUser_init kw = Inr a"
  shows "map_of kw ''email'' = Some (VStr (email a))"
    and "map_of kw ''password_hash'' = Some (VStr (password_hash a))"
  using assms
  by (auto simp: AdminUser_init_def split: sum.splits dest: field_str_required)

lemma find_Some_matches: "find (matches v) ds = Some u \<Longrightarrow> u \<in> set ds \<and> matches v u"
  by (induction ds) (auto split: if_splits)

lemma find_one_Some:
  assumes "find_one d v = Inr (Some u)"
  shows "u \<in> set (adminuser d)" and "map_of u ''email'' = Some v" and "truthy (Some u)"
  using assms find_Some_matches [of v "adminuser d" u]
  by (auto simp: find_one_def matches_def truthy_def split: if_splits)

lemmas eval_token =
  create_access_token_def jwt_encode_def numeric_date_def ALGORITHM_def validate_claims_def
  validate_nbf_def validate_exp_def validate_sub_def timegm_def timedelta_minutes_def
  ACCESS_TOKEN_EXPIRE_MINUTES_def

lemmas eval_model =
  AdminUser_init_def field_str_def field_opt_str_def field_opt_datetime_def field_bool_def
  model_dump_def

lemmas eval_store =
  find_one_def update_one_def create_document_def matches_def truthy_def dict_get_def

lemmas eval_hasher =
  verify_password_def get_password_hash_def pwd_context_verify_def pwd_context_hash_def
  identify_def from_string_def bcrypt_idents_def bcrypt_costs_def bcrypt64_def NUL_def

lemmas eval_data =
  E0_def bcrypt0_def salt0_def hash0_def alice_def nohash_def db0_def db1_def db2_def
  token0_def

lemma get_current_admin_alice:
  "get_current_admin E0 (Some db1) 1000000 token0 =
     Inr \<lparr>email = ''a@x.com'', password_hash = hash0, role = ''admin'', name = Some ''Alice'',
          last_login = None, is_active = True\<rparr>"
  by (simp add: get_current_admin_def eval_data eval_token eval_store eval_model)

text \<open>
  Claim C1, as stated, fails: for the stored record \<open>alice\<close> and a valid token whose subject
  is her email, \<open>get_current_admin\<close> succeeds and the caller it returns carries the stored
  \<^verbatim>\<open>password_hash\<close>.
\<close>

theorem caller_carries_password_hash:
  "get_current_admin E0 (Some db1) 1000000 token0 =
     Inr \<lparr>email = ''a@x.com'', password_hash = hash0, role = ''admin'', name = Some ''Alice'',
          last_login = None, is_active = True\<rparr>
   \<and> adminuser db1 = [alice]
   \<and> map_of alice ''password_hash'' = Some (VStr hash0)"
  using get_current_admin_alice by (simp add: db1_def alice_def)

text \<open>
  Claim C1, amended. A successful call of \<open>get_current_admin\<close> returns the identity record
  that is stored under the token's subject with only the store's \<^verbatim>\<open>_id\<close> removed: the
  caller is the \<^verbatim>\<open>AdminUser\<close> built from the other keys of the stored document, its email
  is the token's subject, and its \<^verbatim>\<open>password_hash\<close> is the stored hash.
\<close>

theorem get_current_admin_stored_record:
  assumes "get_current_admin E db utcnow tok = Inr a"
  shows "\<exists>payload d user.
           jwt_decode utcnow tok (JWT_SECRET E) [ALGORITHM] = Inr payload
         \<and> map_of payload ''sub'' = Some (VStr (email a))
         \<and> db = Some d \<and> user \<in> set (adminuser d)
         \<and> map_of user ''email'' = Some (VStr (email a))
         \<and> map_of user ''password_hash'' = Some (VStr (password_hash a))
         \<and> AdminUser_init (filter (\<lambda>kv. fst kv \<noteq> ''_id'') user) = Inr a"
proof -
  from assms obtain payload
    where dec: "jwt_decode utcnow tok (JWT_SECRET E) [ALGORITHM] = Inr payload"
    by (auto simp: get_current_admin_def split: sum.splits)
  from assms dec obtain sub where sub: "map_of payload ''sub'' = Some sub" "sub \<noteq> VNone"
    by (auto simp: get_current_admin_def split: option.splits val.splits)
  from assms dec sub obtain d user
    where d: "db = Some d" and f: "find_one d sub = Inr (Some user)"
      and init: "AdminUser_init (filter (\<lambda>kv. fst kv \<noteq> ''_id'') user) = Inr a"
    by (cases sub; cases db)
       (auto simp: get_current_admin_def truthy_def split: sum.splits option.splits if_splits)
  note fs = find_one_Some [OF f]
  note af = AdminUser_init_fields [OF init]
  have em: "map_of user ''email'' = Some (VStr (email a))"
    using af(1) by (simp add: map_of_drop_id)
  have ph: "map_of user ''password_hash'' = Some (VStr (password_hash a))"
    using af(2) by (simp add: map_of_drop_id)
  from em fs(2) have "sub = VStr (email a)" by simp
  with dec sub d fs(1) em ph init show ?thesis by auto
qed

theorem get_current_admin_stored_record_witness:
  "\<exists>payload d user.
     jwt_decode 1000000 token0 (JWT_SECRET E0) [ALGORITHM] = Inr payload
   \<and> map_of payload ''sub'' = Some (VStr ''a@x.com'')
   \<and> Some db1 = Some d \<and> user \<in> set (adminuser d)
   \<and> map_of user ''email'' = Some (VStr ''a@x.com'')
   \<and> map_of user ''password_hash'' = Some (VStr hash0)
   \<and> AdminUser_init (filter (\<lambda>kv. fst kv \<noteq> ''_id'') user) =
       Inr \<lparr>email = ''a@x.com'', password_hash = hash0, role = ''admin'', name = Some ''Alice'',
            last_login = None, is_active = True\<rparr>"
  using get_current_admin_stored_record [OF get_current_admin_alice] by simp

section \<open>The exceptions of the operations\<close>

lemma field_errors:
  "field_str kw k dflt = Inl e \<Longrightarrow> e = ValidationError"
  "field_opt_str kw k = Inl e \<Longrightarrow> e = ValidationError"
  "field_opt_datetime kw k = Inl e \<Longrightarrow> e = ValidationError"
  "field_bool kw k b = Inl e \<Longrightarrow> e = ValidationError"
  by (auto simp: field_str_def field_opt_str_def field_opt_datetime_def field_bool_def
           split: option.splits val.splits)

lemma AdminUser_init_error: "AdminUser_init kw = Inl e \<Longrightarrow> e = ValidationError"
  unfolding AdminUser_init_def
  by (auto split: sum.splits dest: field_errors)

lemma find_one_error: "find_one d v = Inl e \<Longrightarrow> e = PyMongoError"
  by (simp add: find_one_def split: if_splits)

lemma update_one_error: "update_one d v k x = Inl e \<Longrightarrow> e = PyMongoError"
  by (simp add: update_one_def split: if_splits)

lemma verify_password_error:
  "verify_password E pw h = Inl e \<Longrightarrow>
     e \<in> {TypeError, UnknownHashError, MalformedHashError, NullPasswordError}"
  by (auto simp: verify_password_def pwd_context_verify_def
           split: val.splits if_splits option.splits)

lemma credential_mismatch_error:
  "credential_mismatch E user pw = Inl e \<Longrightarrow>
     e \<in> {TypeError, UnknownHashError, MalformedHashError, NullPasswordError}"
  by (auto simp: credential_mismatch_def split: if_splits sum.splits dest: verify_password_error)

lemma get_current_admin_error:
  assumes "get_current_admin E db utcnow tok = Inl e"
  shows "e = credentials_exception \<or> e = PyMongoError \<or> e = ValidationError"
proof (cases "jwt_decode utcnow tok (JWT_SECRET E) [ALGORITHM]")
  case (Inl x)
  with assms show ?thesis by (simp add: get_current_admin_def)
next
  case (Inr payload)
  show ?thesis
  proof (cases "map_of payload ''sub''")
    case None
    with assms Inr show ?thesis by (simp add: get_current_admin_def)
  next
    case (Some sub)
    show ?thesis
    proof (cases "sub = VNone")
      case True
      with assms Inr Some show ?thesis by (simp add: get_current_admin_def)
    next
      case False
      let ?look = "case db of None \<Rightarrow> Inr None | Some d \<Rightarrow> find_one d sub"
      from assms Inr Some False
      have res: "(case ?look of Inl e \<Rightarrow> Inl e
                  | Inr user \<Rightarrow> if \<not> truthy user then Inl credentials_exception
                      else AdminUser_init (filter (\<lambda>kv. fst kv \<noteq> ''_id'') (the user))) = Inl e"
        by (cases sub) (auto simp: get_current_admin_def)
      show ?thesis
      proof (cases ?look)
        case (Inl x)
        then have "x = PyMongoError"
          by (cases db) (auto dest: find_one_error)
        with res Inl show ?thesis by simp
      next
        case (Inr user)
        with res show ?thesis
          by (auto split: if_splits dest: AdminUser_init_error)
      qed
    qed
  qed
qed

section \<open>Unauthorized requests\<close>

lemma decode_failures:
  "jwt_decode utcnow (Garbled s) key algs = Inl JWSError"
  "k \<noteq> key \<Longrightarrow> jwt_decode utcnow (Signed alg k claims) key algs = Inl JWSError"
  "alg \<notin> set algs \<Longrightarrow> jwt_decode utcnow (Signed alg k claims) key algs = Inl JWSError"
  "map_of claims ''nbf'' = None \<Longrightarrow> map_of claims ''exp'' = Some (VInt x) \<Longrightarrow> x < timegm utcnow \<Longrightarrow>
     jwt_decode utcnow (Signed alg key claims) key [alg] = Inl ExpiredSignatureError"
  by (auto simp: validate_claims_def validate_nbf_def validate_exp_def)

text \<open>
  Claim C6. Whatever makes request authentication fail, the exception is the same. If the
  token does not decode (it is malformed, its signature does not verify, or it is expired:
  every failure of \<open>jwt_decode\<close>), or it decodes without a \<^verbatim>\<open>sub\<close> claim, or no identity
  record is found for its subject, then \<open>get_current_admin\<close> raises the exception with
  status 401 and detail \<^verbatim>\<open>Could not validate credentials\<close>.
\<close>

theorem unauthorized_uniform:
  assumes "(\<exists>e. jwt_decode utcnow tok (JWT_SECRET E) [ALGORITHM] = Inl e)
         \<or> (\<exists>payload. jwt_decode utcnow tok (JWT_SECRET E) [ALGORITHM] = Inr payload
               \<and> map_of payload ''sub'' = None)
         \<or> (\<exists>payload sub. jwt_decode utcnow tok (JWT_SECRET E) [ALGORITHM] = Inr payload
               \<and> map_of payload ''sub'' = Some sub
               \<and> (db = None \<or> (\<exists>d. db = Some d \<and> find_one d sub = Inr None)))"
  shows "get_current_admin E db utcnow tok =
           Inl (HTTPException 401 ''Could not validate credentials'')"
  using assms
  by (auto simp: get_current_admin_def credentials_exception_def truthy_def
           split: sum.splits option.splits val.splits)

theorem unauthorized_uniform_witness:
  "get_current_admin E0 (Some db1) 0 (Garbled ''abc'') =
     Inl (HTTPException 401 ''Could not validate credentials'')
   \<and> get_current_admin E0 (Some db1) 0 (Signed ''HS256'' ''forged'' [(''sub'', VStr ''a@x.com'')]) =
     Inl (HTTPException 401 ''Could not validate credentials'')
   \<and> get_current_admin E0 (Some db1) 28801000000 token0 =
     Inl (HTTPException 401 ''Could not validate credentials'')
   \<and> get_current_admin E0 (Some db1) 0 (Signed ''HS256'' ''dev-secret-change'' []) =
     Inl (HTTPException 401 ''Could not validate credentials'')
   \<and> get_current_admin E0 (Some db0) 0 token0 =
     Inl (HTTPException 401 ''Could not validate credentials'')"
proof -
  have malformed: "\<exists>e. jwt_decode 0 (Garbled ''abc'') (JWT_SECRET E0) [ALGORITHM] = Inl e"
    by simp
  have forged: "\<exists>e. jwt_decode 0 (Signed ''HS256'' ''forged'' [(''sub'', VStr ''a@x.com'')])
                   (JWT_SECRET E0) [ALGORITHM] = Inl e"
    by (simp add: E0_def)
  have expired: "\<exists>e. jwt_decode 28801000000 token0 (JWT_SECRET E0) [ALGORITHM] = Inl e"
    by (simp add: eval_data eval_token)
  have no_subject: "\<exists>payload.
      jwt_decode 0 (Signed ''HS256'' ''dev-secret-change'' []) (JWT_SECRET E0) [ALGORITHM]
        = Inr payload \<and> map_of payload ''sub'' = None"
    by (simp add: eval_data eval_token)
  have unknown: "\<exists>payload sub.
      jwt_decode 0 token0 (JWT_SECRET E0) [ALGORITHM] = Inr payload
      \<and> map_of payload ''sub'' = Some sub
      \<and> (Some db0 = None \<or> (\<exists>d. Some db0 = Some d \<and> find_one d sub = Inr None))"
    by (simp add: eval_data eval_token eval_store)
  show ?thesis
    using unauthorized_uniform [OF disjI1, OF malformed, of "Some db1"]
      unauthorized_uniform [OF disjI1, OF forged, of "Some db1"]
      unauthorized_uniform [OF disjI1, OF expired, of "Some db1"]
      unauthorized_uniform [OF disjI2, OF disjI1, OF no_subject, of "Some db1"]
      unauthorized_uniform [OF disjI2, OF disjI2, OF unknown]
    by simp
qed

section \<open>Login\<close>

lemma login_result:
  "login E db utcnow utcnow' username password =
     (case db of
        None \<Rightarrow> (Inl TypeError, db)
      | Some d \<Rightarrow>
          (case find_one d (VStr username) of
             Inl e \<Rightarrow> (Inl e, db)
           | Inr user \<Rightarrow>
               (case credential_mismatch E user password of
                  Inl e \<Rightarrow> (Inl e, db)
                | Inr True \<Rightarrow> (Inl (HTTPException 400 ''Incorrect email or password''), db)
                | Inr False \<Rightarrow>
                    (case update_one d (VStr username) ''last_login'' (VDatetime utcnow') of
                       Inl e \<Rightarrow> (Inl e, db)
                     | Inr d' \<Rightarrow>
                         (Inr \<lparr>access_token = create_access_token (JWT_SECRET E) utcnow
                                                 [(''sub'', VStr username)] None,
                               token_type = ''bearer''\<rparr>, Some d')))))"
proof (cases db)
  case None
  then show ?thesis by (simp add: login_def)
next
  case (Some d)
  show ?thesis
  proof (cases "find_one d (VStr username)")
    case (Inl e)
    with Some show ?thesis by (simp add: login_def)
  next
    case (Inr user)
    show ?thesis
    proof (cases "credential_mismatch E user password")
      case (Inl e)
      with Some Inr show ?thesis by (simp add: login_def)
    next
      case mm: (Inr b)
      show ?thesis
      proof (cases b)
        case True
        with Some Inr mm show ?thesis by (simp add: login_def)
      next
        case False
        with mm have "truthy user"
          by (simp add: credential_mismatch_def split: if_splits)
        then obtain u where u: "user = Some u"
          by (auto simp: truthy_def split: option.splits)
        with Inr have "map_of u ''email'' = Some (VStr username)"
          by (simp add: find_one_Some(2))
        with Some Inr mm False u show ?thesis by (simp add: login_def split: sum.splits)
      qed
    qed
  qed
qed

lemma login_400:
  "fst (login E db utcnow utcnow' username password) = Inl (HTTPException c m) \<longleftrightarrow>
     (\<exists>d user. db = Some d \<and> find_one d (VStr username) = Inr user
        \<and> credential_mismatch E user password = Inr True
        \<and> c = 400 \<and> m = ''Incorrect email or password'')"
proof (cases db)
  case None
  then show ?thesis by (simp add: login_result)
next
  case (Some d)
  show ?thesis
  proof (cases "find_one d (VStr username)")
    case (Inl e)
    with Some show ?thesis by (auto simp: login_result dest: find_one_error)
  next
    case (Inr user)
    show ?thesis
    proof (cases "credential_mismatch E user password")
      case (Inl e)
      with Some Inr show ?thesis by (auto simp: login_result dest: credential_mismatch_error)
    next
      case mm: (Inr b)
      show ?thesis
      proof (cases b)
        case True
        with Some Inr mm show ?thesis by (auto simp: login_result)
      next
        case False
        with Some Inr mm show ?thesis
          by (cases "update_one d (VStr username) ''last_login'' (VDatetime utcnow')")
             (auto simp: login_result dest: update_one_error)
      qed
    qed
  qed
qed

lemma login_failure_frame:
  "fst (login E db utcnow utcnow' username password) = Inl e \<Longrightarrow>
   snd (login E db utcnow utcnow' username password) = db"
  by (simp add: login_result split: option.splits sum.splits bool.splits)

lemma alice_found: "find_one (db1\<lparr>failing := F\<rparr>) (VStr ''a@x.com'') =
    (if FindOne \<in> F then Inl PyMongoError else Inr (Some alice))"
  by (simp add: eval_data eval_store)

lemma alice_verified: "credential_mismatch E0 (Some alice) ''pw123456'' = Inr False"
  by (simp add: credential_mismatch_def eval_data eval_store eval_hasher)

lemma alice_wrong_password:
  "verify_password E0 ''guess'' (dict_get alice ''password_hash'' (VStr [])) = Inr False"
  by (simp add: eval_data eval_store eval_hasher)

text \<open>
  Claim C2, as stated, fails: in a store whose update raises, the lookup finds \<open>alice\<close>, her
  password verifies, and \<open>login\<close> ends with the store's exception instead of the token.
\<close>

theorem login_fails_on_update_error:
  "find_one (db1\<lparr>failing := {UpdateOne}\<rparr>) (VStr ''a@x.com'') = Inr (Some alice)
   \<and> credential_mismatch E0 (Some alice) ''pw123456'' = Inr False
   \<and> login E0 (Some (db1\<lparr>failing := {UpdateOne}\<rparr>)) 0 1 ''a@x.com'' ''pw123456'' =
       (Inl PyMongoError, Some (db1\<lparr>failing := {UpdateOne}\<rparr>))"
  using alice_found [of "{UpdateOne}"] alice_verified
  by (simp add: login_result update_one_def)

text \<open>
  Claim C2, amended. A login that passes credential verification returns the issued token
  exactly when the update of \<^verbatim>\<open>last_login\<close> succeeds, and the store then holds the new
  \<^verbatim>\<open>last_login\<close>; when the update raises, the login fails with the store's exception and
  the store is unchanged.
\<close>

theorem login_after_verification:
  assumes "find_one d (VStr username) = Inr user"
    and "credential_mismatch E user password = Inr False"
  shows "login E (Some d) utcnow utcnow' username password =
           (if UpdateOne \<in> failing d then (Inl PyMongoError, Some d)
            else (Inr \<lparr>access_token = create_access_token (JWT_SECRET E) utcnow
                                         [(''sub'', VStr username)] None,
                       token_type = ''bearer''\<rparr>,
                  Some (d\<lparr>adminuser := set_first (VStr username) ''last_login''
                                         (VDatetime utcnow') (adminuser d)\<rparr>)))"
  using assms by (simp add: login_result update_one_def)

theorem login_after_verification_witness:
  "login E0 (Some (db1\<lparr>failing := {UpdateOne}\<rparr>)) 5 6 ''a@x.com'' ''pw123456'' =
     (Inl PyMongoError, Some (db1\<lparr>failing := {UpdateOne}\<rparr>))
   \<and> login E0 (Some (db1\<lparr>failing := {}\<rparr>)) 5 6 ''a@x.com'' ''pw123456'' =
     (Inr \<lparr>access_token = create_access_token (JWT_SECRET E0) 5 [(''sub'', VStr ''a@x.com'')] None,
           token_type = ''bearer''\<rparr>,
      Some (db1\<lparr>failing := {},
                adminuser := [dict_set alice ''last_login'' (VDatetime 6)]\<rparr>))"
proof -
  have f: "find_one (db1\<lparr>failing := {UpdateOne}\<rparr>) (VStr ''a@x.com'') = Inr (Some alice)"
    and g: "find_one (db1\<lparr>failing := {}\<rparr>) (VStr ''a@x.com'') = Inr (Some alice)"
    by (simp_all add: alice_found)
  have m: "matches (VStr ''a@x.com'') alice"
    by (simp add: matches_def alice_def)
  show ?thesis
    using login_after_verification [OF f alice_verified, of 5 6]
      login_after_verification [OF g alice_verified, of 5 6] m
    by (simp add: db1_def)
qed

text \<open>
  Claim C3 does not hold of the code: \<open>verify_password\<close> passes its arguments to the hasher
  unguarded, and the hasher raises for a hash it cannot identify. The empty string, which
  \<open>login\<close> supplies for a record without \<^verbatim>\<open>password_hash\<close>, is such a hash: verification
  raises \<^verbatim>\<open>UnknownHashError\<close> for every password, and the login on the record \<open>nohash\<close>
  ends with that exception instead of the credential error.
\<close>

theorem verify_password_unidentified_hash:
  "verify_password E pw (VStr []) = Inl UnknownHashError
   \<and> login E0 (Some db2) 0 1 ''b@x.com'' ''pw123456'' = (Inl UnknownHashError, Some db2)"
  by (simp add: login_def credential_mismatch_def eval_data eval_store eval_hasher)




text \<open>
  Claim C8. A login that fails with the credential error leaves the store as it was, and so
  does any number of repetitions of it, whatever the clock reads at each attempt: no record
  is created and no field of any record changes.
\<close>

theorem failed_login_frame:
  assumes "fst (login E db utcnow utcnow' username password) =
             Inl (HTTPException 400 ''Incorrect email or password'')"
  shows "snd (login E db utcnow utcnow' username password) = db
       \<and> fold (\<lambda>clock st. snd (login E st (fst clock) (snd clock) username password)) clocks db
           = db"
proof -
  from assms have cause: "\<exists>d user. db = Some d \<and> find_one d (VStr username) = Inr user
      \<and> credential_mismatch E user password = Inr True"
    by (simp add: login_400)
  have again: "login E db s s' username password =
      (Inl (HTTPException 400 ''Incorrect email or password''), db)" for s s'
  proof -
    from cause have "fst (login E db s s' username password) =
        Inl (HTTPException 400 ''Incorrect email or password'')"
      by (simp add: login_400)
    with login_failure_frame [OF this] show ?thesis
      by (simp add: prod_eq_iff)
  qed
  have "fold (\<lambda>clock st. snd (login E st (fst clock) (snd clock) username password)) clocks db
          = db"
    by (induction clocks) (simp_all add: again)
  with again [of utcnow utcnow'] show ?thesis by simp
qed

theorem failed_login_frame_witness:
  "snd (login E0 (Some db1) 0 1 ''a@x.com'' ''guess'') = Some db1
   \<and> fold (\<lambda>clock st. snd (login E0 st (fst clock) (snd clock) ''a@x.com'' ''guess''))
        [(2, 3), (4, 5), (6, 7)] (Some db1) = Some db1"
proof -
  have "find_one db1 (VStr ''a@x.com'') = Inr (Some alice)"
    using alice_found [of "{}"] by (simp add: db1_def)
  moreover have "truthy (Some alice)"
    by (simp add: truthy_def alice_def)
  ultimately have "fst (login E0 (Some db1) 0 1 ''a@x.com'' ''guess'') =
      Inl (HTTPException 400 ''Incorrect email or password'')"
    using alice_wrong_password by (simp add: login_result credential_mismatch_def)
  from failed_login_frame [OF this, of "[(2, 3), (4, 5), (6, 7)]"] show ?thesis .
qed

section \<open>Registration and the uniqueness of emails\<close>

lemma find_None_no_match: "find (matches v) ds = None \<Longrightarrow> u \<in> set ds \<Longrightarrow> \<not> matches v u"
  by (induction ds) (auto split: if_splits)

lemma not_truthy_find_one:
  assumes "find_one d v = Inr found" and "\<not> truthy found"
  shows "\<forall>u \<in> set (adminuser d). map_of u ''email'' \<noteq> Some v"
proof (cases found)
  case None
  with assms(1) have "find (matches v) (adminuser d) = None"
    by (simp add: find_one_def split: if_splits)
  then show ?thesis
    using find_None_no_match [of v "adminuser d"] by (auto simp: matches_def)
next
  case (Some u)
  with assms(1) have "truthy (Some u)" by (simp add: find_one_Some(3))
  with assms(2) Some show ?thesis by simp
qed

lemma find_one_existing:
  assumes "FindOne \<notin> failing d" and "u \<in> set (adminuser d)" and "map_of u ''email'' = Some v"
  shows "\<exists>found. find_one d v = Inr found \<and> truthy found"
proof -
  from assms(1) have f: "find_one d v = Inr (find (matches v) (adminuser d))"
    by (simp add: find_one_def)
  show ?thesis
  proof (cases "find (matches v) (adminuser d)")
    case None
    with assms(2,3) find_None_no_match [of v "adminuser d" u] show ?thesis
      by (simp add: matches_def)
  next
    case (Some w)
    with f have "find_one d v = Inr (Some w)" by simp
    with find_one_Some(3) [of d v w] show ?thesis by simp
  qed
qed

lemma AdminUser_init_new:
  "AdminUser_init
     [(''email'', VStr e), (''password_hash'', VStr h),
      (''name'', VStr (name_or nm (split_head (CHR ''@'') e)))] = Inr (new_admin e h nm)"
  by (simp add: eval_model new_admin_def)

lemma register_success:
  assumes "fst (register_admin E (Some d) salt t e pw nm) = Inr r"
  shows "\<exists>found hashed.
           find_one d (VStr e) = Inr found \<and> \<not> truthy found
         \<and> get_password_hash E salt pw = Inr hashed
         \<and> r = \<lparr>access_token = create_access_token (JWT_SECRET E) t [(''sub'', VStr e)] None,
                 token_type = ''bearer''\<rparr>
         \<and> snd (register_admin E (Some d) salt t e pw nm) =
             Some (d\<lparr>adminuser := adminuser d @ [model_dump (new_admin e hashed nm)]\<rparr>)"
proof (cases "find_one d (VStr e)")
  case (Inl x)
  with assms show ?thesis by (simp add: register_admin_def)
next
  case (Inr found)
  show ?thesis
  proof (cases "truthy found")
    case True
    with assms Inr show ?thesis by (simp add: register_admin_def)
  next
    case False
    show ?thesis
    proof (cases "get_password_hash E salt pw")
      case (Inl x)
      with assms Inr False show ?thesis by (simp add: register_admin_def)
    next
      case hashed: (Inr hashed)
      show ?thesis
      proof (cases "create_document d (new_admin e hashed nm)")
        case (Inl x)
        with assms Inr False hashed show ?thesis
          by (simp add: register_admin_def AdminUser_init_new)
      next
        case created: (Inr d')
        then have "d' = d\<lparr>adminuser := adminuser d @ [model_dump (new_admin e hashed nm)]\<rparr>"
          by (simp add: create_document_def split: if_splits)
        with assms Inr False hashed created show ?thesis
          by (simp add: register_admin_def AdminUser_init_new Let_def)
      qed
    qed
  qed
qed

lemma register_failure_frame:
  assumes "fst (register_admin E db salt t e pw nm) = Inl x"
  shows "snd (register_admin E db salt t e pw nm) = db"
proof (cases db)
  case None
  then show ?thesis by (simp add: register_admin_def)
next
  case (Some d)
  show ?thesis
  proof (cases "find_one d (VStr e)")
    case (Inl y)
    with Some show ?thesis by (simp add: register_admin_def)
  next
    case (Inr found)
    show ?thesis
    proof (cases "truthy found")
      case True
      with Some Inr show ?thesis by (simp add: register_admin_def)
    next
      case False
      show ?thesis
      proof (cases "get_password_hash E salt pw")
        case (Inl y)
        with Some Inr False show ?thesis by (simp add: register_admin_def)
      next
        case hashed: (Inr hashed)
        show ?thesis
        proof (cases "create_document d (new_admin e hashed nm)")
          case (Inl y)
          with Some Inr False hashed show ?thesis
            by (simp add: register_admin_def AdminUser_init_new)
        next
          case created: (Inr d')
          with assms Some Inr False hashed show ?thesis
            by (simp add: register_admin_def AdminUser_init_new Let_def)
        qed
      qed
    qed
  qed
qed

lemma register_duplicate:
  assumes "FindOne \<notin> failing d" and "u \<in> set (adminuser d)"
    and "map_of u ''email'' = Some (VStr e)"
  shows "register_admin E (Some d) salt t e pw nm =
           (Inl (HTTPException 400 ''Email already registered''), Some d)"
  using find_one_existing [OF assms] by (auto simp: register_admin_def)

lemma emails_append: "emails (ds @ es) = emails ds @ emails es"
  by (simp add: emails_def)

lemma in_emails: "v \<in> set (emails ds) \<longleftrightarrow> (\<exists>u \<in> set ds. map_of u ''email'' = Some v)"
  by (induction ds) (auto simp: emails_def split: option.splits)

lemma map_of_dict_set: "map_of (dict_set d k v) k' = (if k' = k then Some v else map_of d k')"
  by (induction d) auto

lemma emails_set_first: "k \<noteq> ''email'' \<Longrightarrow> emails (set_first v k x ds) = emails ds"
  by (induction ds) (auto simp: emails_def map_of_dict_set)

lemma split_head_spec:
  "CHR ''@'' \<notin> set (split_head (CHR ''@'') s)"
  "s = split_head (CHR ''@'') s \<or> (\<exists>rest. s = split_head (CHR ''@'') s @ CHR ''@'' # rest)"
proof -
  let ?P = "\<lambda>c. c \<noteq> CHR ''@''"
  show "CHR ''@'' \<notin> set (split_head (CHR ''@'') s)"
    by (auto simp: split_head_def dest: set_takeWhileD)
  have id: "s = takeWhile ?P s @ dropWhile ?P s" by simp
  show "s = split_head (CHR ''@'') s \<or> (\<exists>rest. s = split_head (CHR ''@'') s @ CHR ''@'' # rest)"
  proof (cases "dropWhile ?P s")
    case Nil
    with id have "s = takeWhile ?P s" by simp
    then show ?thesis by (simp add: split_head_def)
  next
    case (Cons c rest)
    then have "c = CHR ''@''"
      using hd_dropWhile [of ?P s] by auto
    with Cons id have "s = takeWhile ?P s @ CHR ''@'' # rest" by simp
    then show ?thesis unfolding split_head_def by blast
  qed
qed

text \<open>
  Claim C4. Unique emails are an invariant of the store under the operations that write to
  it (\<open>get_current_admin\<close> only reads). From a store with unique emails: registering an
  email that a record already carries fails with status 400 and detail
  \<^verbatim>\<open>Email already registered\<close>; a registration that fails, for whatever reason, leaves
  the store as it was; a registration that succeeds appends exactly one document, which
  carries the email; and the store after any registration and after any login has unique
  emails again.
\<close>

theorem email_uniqueness:
  assumes "unique_emails d"
  shows "(FindOne \<notin> failing d \<and> (\<exists>u \<in> set (adminuser d). map_of u ''email'' = Some (VStr e)) \<longrightarrow>
            register_admin E (Some d) salt t e pw nm =
              (Inl (HTTPException 400 ''Email already registered''), Some d))
       \<and> (\<forall>x. fst (register_admin E (Some d) salt t e pw nm) = Inl x \<longrightarrow>
            snd (register_admin E (Some d) salt t e pw nm) = Some d)
       \<and> (\<forall>r. fst (register_admin E (Some d) salt t e pw nm) = Inr r \<longrightarrow>
            (\<exists>doc. snd (register_admin E (Some d) salt t e pw nm) =
                     Some (d\<lparr>adminuser := adminuser d @ [doc]\<rparr>)
                 \<and> map_of doc ''email'' = Some (VStr e)))
       \<and> (\<forall>d'. snd (register_admin E (Some d) salt t e pw nm) = Some d' \<longrightarrow> unique_emails d')
       \<and> (\<forall>d'. snd (login E (Some d) s s' u p) = Some d' \<longrightarrow> unique_emails d')"
proof (intro conjI allI impI)
  assume "FindOne \<notin> failing d \<and> (\<exists>u \<in> set (adminuser d). map_of u ''email'' = Some (VStr e))"
  then show "register_admin E (Some d) salt t e pw nm =
               (Inl (HTTPException 400 ''Email already registered''), Some d)"
    by (auto intro: register_duplicate)
next
  fix x assume "fst (register_admin E (Some d) salt t e pw nm) = Inl x"
  then show "snd (register_admin E (Some d) salt t e pw nm) = Some d"
    by (rule register_failure_frame)
next
  fix r assume "fst (register_admin E (Some d) salt t e pw nm) = Inr r"
  from register_success [OF this]
  show "\<exists>doc. snd (register_admin E (Some d) salt t e pw nm) =
                Some (d\<lparr>adminuser := adminuser d @ [doc]\<rparr>)
            \<and> map_of doc ''email'' = Some (VStr e)"
    by (auto simp: model_dump_def new_admin_def)
next
  fix d' assume d': "snd (register_admin E (Some d) salt t e pw nm) = Some d'"
  show "unique_emails d'"
  proof (cases "fst (register_admin E (Some d) salt t e pw nm)")
    case (Inl x)
    with d' register_failure_frame [of E "Some d" salt t e pw nm x] assms
    show ?thesis by simp
  next
    case (Inr r)
    from register_success [OF Inr] d' obtain found hashed
      where f: "find_one d (VStr e) = Inr found" "\<not> truthy found"
        and eq: "d' = d\<lparr>adminuser := adminuser d @ [model_dump (new_admin e hashed nm)]\<rparr>"
      by auto
    from not_truthy_find_one [OF f] have "VStr e \<notin> set (emails (adminuser d))"
      by (simp add: in_emails)
    moreover have "emails [model_dump (new_admin e hashed nm)] = [VStr e]"
      by (simp add: emails_def model_dump_def new_admin_def)
    ultimately show ?thesis
      using assms by (simp add: eq unique_emails_def emails_append)
  qed
next
  fix d' assume d': "snd (login E (Some d) s s' u p) = Some d'"
  show "unique_emails d'"
  proof (cases "fst (login E (Some d) s s' u p)")
    case (Inl x)
    with d' login_failure_frame [of E "Some d" s s' u p x] assms show ?thesis by simp
  next
    case (Inr r)
    with d' have "d' = d\<lparr>adminuser := set_first (VStr u) ''last_login'' (VDatetime s') (adminuser d)\<rparr>"
      by (auto simp: login_result update_one_def split: sum.splits bool.splits if_splits)
    with assms show ?thesis
      by (simp add: unique_emails_def emails_set_first)
  qed
qed

lemma model_dump_new_admin:
  "model_dump (new_admin e hashed nm) =
     [(''email'', VStr e), (''password_hash'', VStr hashed), (''role'', VStr ''admin''),
      (''name'', VStr (name_or nm (split_head (CHR ''@'') e))), (''last_login'', VNone),
      (''is_active'', VBool True)]"
  by (simp add: model_dump_def new_admin_def)

lemma register_on_db0:
  "register_admin E0 (Some db0) salt0 0 ''a@x.com'' ''pw123456'' nm =
     (Inr \<lparr>access_token = token0, token_type = ''bearer''\<rparr>,
      Some (db0\<lparr>adminuser := [model_dump (new_admin ''a@x.com'' hash0 nm)]\<rparr>))"
  by (simp add: register_admin_def AdminUser_init_new db0_def E0_def bcrypt0_def salt0_def
      hash0_def token0_def find_one_def create_document_def truthy_def get_password_hash_def
      pwd_context_hash_def NUL_def)

lemma register_on_db1:
  "register_admin E0 (Some db1) salt0 0 ''b@x.com'' ''pw123456'' None =
     (Inr \<lparr>access_token = create_access_token ''dev-secret-change'' 0
                             [(''sub'', VStr ''b@x.com'')] None,
           token_type = ''bearer''\<rparr>,
      Some (db1\<lparr>adminuser := [alice, model_dump (new_admin ''b@x.com'' hash0 None)]\<rparr>))"
  by (simp add: register_admin_def AdminUser_init_new db1_def E0_def bcrypt0_def salt0_def
      hash0_def alice_def find_one_def create_document_def truthy_def matches_def
      get_password_hash_def pwd_context_hash_def NUL_def)

lemma unique_db1: "unique_emails db1"
  by (simp add: unique_emails_def emails_def db1_def alice_def)

theorem email_uniqueness_witness:
  "unique_emails db1
   \<and> register_admin E0 (Some db1) salt0 0 ''a@x.com'' ''pw123456'' None =
       (Inl (HTTPException 400 ''Email already registered''), Some db1)
   \<and> snd (register_admin E0 (Some db1) salt0 0 ''b@x.com'' ''pw123456'' None) =
       Some (db1\<lparr>adminuser := [alice, model_dump (new_admin ''b@x.com'' hash0 None)]\<rparr>)
   \<and> unique_emails (db1\<lparr>adminuser := [alice, model_dump (new_admin ''b@x.com'' hash0 None)]\<rparr>)
   \<and> unique_emails (db1\<lparr>adminuser := [dict_set alice ''last_login'' (VDatetime 6)]\<rparr>)"
proof -
  have dup: "FindOne \<notin> failing db1
      \<and> (\<exists>u \<in> set (adminuser db1). map_of u ''email'' = Some (VStr ''a@x.com''))"
    by (simp add: db1_def alice_def)
  have logged: "snd (login E0 (Some db1) 5 6 ''a@x.com'' ''pw123456'') =
      Some (db1\<lparr>adminuser := [dict_set alice ''last_login'' (VDatetime 6)]\<rparr>)"
    using alice_found [of "{}"] alice_verified
    by (simp add: login_result update_one_def db1_def matches_def alice_def)
  show ?thesis
    using email_uniqueness [OF unique_db1, where e = "''a@x.com''" and E = E0 and salt = salt0
        and t = 0 and pw = "''pw123456''" and nm = None]
      email_uniqueness [OF unique_db1, where e = "''b@x.com''" and E = E0 and salt = salt0
        and t = 0 and pw = "''pw123456''" and nm = None and s = 5 and s' = 6 and u = "''a@x.com''"
        and p = "''pw123456''"]
      dup logged unique_db1
    by (simp add: register_on_db1)
qed

section \<open>The record a registration persists\<close>

text \<open>
  Claim C9, as stated, fails for a name that is given and empty: registering
  \<^verbatim>\<open>a@x.com\<close> with the name \<^verbatim>\<open>""\<close> succeeds, and the persisted record has the display
  name \<^verbatim>\<open>a\<close>, not the supplied name.
\<close>

theorem empty_name_not_persisted:
  "register_admin E0 (Some db0) salt0 0 ''a@x.com'' ''pw123456'' (Some []) =
     (Inr \<lparr>access_token = token0, token_type = ''bearer''\<rparr>,
      Some (db0\<lparr>adminuser :=
        [[(''email'', VStr ''a@x.com''), (''password_hash'', VStr hash0),
          (''role'', VStr ''admin''), (''name'', VStr ''a''), (''last_login'', VNone),
          (''is_active'', VBool True)]]\<rparr>))"
  using register_on_db0 [of "Some []"]
  by (simp add: model_dump_new_admin name_or_def split_head_def)

text \<open>
  Claim C9, amended. A successful registration appends one document to the collection. Its
  role is \<^verbatim>\<open>admin\<close>, \<^verbatim>\<open>is_active\<close> is true, \<^verbatim>\<open>last_login\<close> is \<^verbatim>\<open>None\<close>, its
  \<^verbatim>\<open>password_hash\<close> is the hash of the supplied password, and its display name is the
  supplied name when a non-empty one was given and otherwise (no name, or the empty name)
  the part of the email before the first \<^verbatim>\<open>@\<close>.
\<close>

theorem registered_record:
  assumes "fst (register_admin E (Some d) salt t e pw nm) = Inr r"
  shows "\<exists>hashed doc.
           get_password_hash E salt pw = Inr hashed
         \<and> snd (register_admin E (Some d) salt t e pw nm) =
             Some (d\<lparr>adminuser := adminuser d @ [doc]\<rparr>)
         \<and> map_of doc ''email'' = Some (VStr e)
         \<and> map_of doc ''password_hash'' = Some (VStr hashed)
         \<and> map_of doc ''role'' = Some (VStr ''admin'')
         \<and> map_of doc ''is_active'' = Some (VBool True)
         \<and> map_of doc ''last_login'' = Some VNone
         \<and> map_of doc ''name'' =
             Some (VStr (case nm of
                           None \<Rightarrow> split_head (CHR ''@'') e
                         | Some n \<Rightarrow> if n \<noteq> [] then n else split_head (CHR ''@'') e))"
proof -
  from register_success [OF assms] obtain hashed
    where h: "get_password_hash E salt pw = Inr hashed"
      and s: "snd (register_admin E (Some d) salt t e pw nm) =
                Some (d\<lparr>adminuser := adminuser d @ [model_dump (new_admin e hashed nm)]\<rparr>)"
    by auto
  have "name_or nm (split_head (CHR ''@'') e) =
          (case nm of None \<Rightarrow> split_head (CHR ''@'') e
           | Some n \<Rightarrow> if n \<noteq> [] then n else split_head (CHR ''@'') e)"
    by (simp add: name_or_def split: option.splits)
  with h s show ?thesis
    by (intro exI [of _ hashed] exI [of _ "model_dump (new_admin e hashed nm)"])
       (simp add: model_dump_new_admin)
qed

theorem registered_record_witness:
  "\<exists>hashed doc.
     get_password_hash E0 salt0 ''pw123456'' = Inr hashed
   \<and> snd (register_admin E0 (Some db0) salt0 0 ''a@x.com'' ''pw123456'' (Some ''Alice'')) =
       Some (db0\<lparr>adminuser := adminuser db0 @ [doc]\<rparr>)
   \<and> map_of doc ''email'' = Some (VStr ''a@x.com'')
   \<and> map_of doc ''password_hash'' = Some (VStr hashed)
   \<and> map_of doc ''role'' = Some (VStr ''admin'')
   \<and> map_of doc ''is_active'' = Some (VBool True)
   \<and> map_of doc ''last_login'' = Some VNone
   \<and> map_of doc ''name'' = Some (VStr ''Alice'')"
proof -
  have "fst (register_admin E0 (Some db0) salt0 0 ''a@x.com'' ''pw123456'' (Some ''Alice'')) =
          Inr \<lparr>access_token = token0, token_type = ''bearer''\<rparr>"
    by (simp add: register_on_db0)
  from registered_record [OF this] show ?thesis by simp
qed

text \<open>
  Claim C10. The empty name is treated as no name: registering with the name \<^verbatim>\<open>""\<close> does
  exactly what registering without a name does, and when it succeeds the persisted display
  name is the part of the email before the first \<^verbatim>\<open>@\<close>.
\<close>

theorem empty_name_as_absent:
  "register_admin E db salt t e pw (Some []) = register_admin E db salt t e pw None
   \<and> (\<forall>r. fst (register_admin E (Some d) salt t e pw (Some [])) = Inr r \<longrightarrow>
        (\<exists>doc. snd (register_admin E (Some d) salt t e pw (Some [])) =
                 Some (d\<lparr>adminuser := adminuser d @ [doc]\<rparr>)
             \<and> map_of doc ''name'' = Some (VStr (split_head (CHR ''@'') e))))"
proof (intro conjI allI impI)
  have "name_or (Some []) x = name_or None x" for x
    by (simp add: name_or_def)
  then show "register_admin E db salt t e pw (Some []) = register_admin E db salt t e pw None"
    unfolding register_admin_def by (simp only:)
next
  fix r assume "fst (register_admin E (Some d) salt t e pw (Some [])) = Inr r"
  from register_success [OF this]
  show "\<exists>doc. snd (register_admin E (Some d) salt t e pw (Some [])) =
                Some (d\<lparr>adminuser := adminuser d @ [doc]\<rparr>)
            \<and> map_of doc ''name'' = Some (VStr (split_head (CHR ''@'') e))"
    by (auto simp: model_dump_new_admin name_or_def)
qed

theorem empty_name_as_absent_witness:
  "register_admin E0 (Some db0) salt0 0 ''a@x.com'' ''pw123456'' (Some []) =
     register_admin E0 (Some db0) salt0 0 ''a@x.com'' ''pw123456'' None
   \<and> (\<exists>doc. snd (register_admin E0 (Some db0) salt0 0 ''a@x.com'' ''pw123456'' (Some [])) =
              Some (db0\<lparr>adminuser := adminuser db0 @ [doc]\<rparr>)
          \<and> map_of doc ''name'' = Some (VStr ''a''))"
proof -
  have ok: "fst (register_admin E0 (Some db0) salt0 0 ''a@x.com'' ''pw123456'' (Some [])) =
          Inr \<lparr>access_token = token0, token_type = ''bearer''\<rparr>"
    by (simp add: register_on_db0)
  have local: "split_head (CHR ''@'') ''a@x.com'' = ''a''"
    by (simp add: split_head_def)
  note th = empty_name_as_absent [of E0 "Some db0" salt0 0 "''a@x.com''" "''pw123456''" db0]
  show ?thesis
  proof (intro conjI)
    from th show "register_admin E0 (Some db0) salt0 0 ''a@x.com'' ''pw123456'' (Some []) =
        register_admin E0 (Some db0) salt0 0 ''a@x.com'' ''pw123456'' None"
      by (rule conjunct1)
    from th ok
    have "\<exists>doc. snd (register_admin E0 (Some db0) salt0 0 ''a@x.com'' ''pw123456'' (Some [])) =
                  Some (db0\<lparr>adminuser := adminuser db0 @ [doc]\<rparr>)
              \<and> map_of doc ''name'' = Some (VStr (split_head (CHR ''@'') ''a@x.com''))"
      by blast
    then show "\<exists>doc. snd (register_admin E0 (Some db0) salt0 0 ''a@x.com'' ''pw123456'' (Some [])) =
                  Some (db0\<lparr>adminuser := adminuser db0 @ [doc]\<rparr>)
              \<and> map_of doc ''name'' = Some (VStr ''a'')"
      unfolding local .
  qed
qed

end
